theory Spec2Isabelle
  imports Complex_Main "HOL-Library.AList"
begin

section \<open>Python values\<close>

text \<open>
  The SDK is dynamically typed: JSON bodies, keyword arguments and the attributes of
  \<^verbatim>\<open>APIError\<close> hold arbitrary Python objects. The objects the code can meet are
  collected in one datatype. A \<^verbatim>\<open>datetime\<close> is an aware UTC instant, given in
  microseconds since the epoch. A \<^verbatim>\<open>dict\<close> is an association list in insertion
  order with distinct keys. A float is the number it stands for; the arithmetic on
  floats is rounded as the section on floats below says.
\<close>

record RateLimitInfo =
  limit :: int
  remaining :: int
  reset_at :: "int option"
  tier :: string

datatype pyval =
    PNone
  | PBool bool
  | PInt int
  | PFloat real
  | PStr string
  | PList "pyval list"
  | PDict "(string \<times> pyval) list"
  | PDatetime int
  | PRateLimitInfo RateLimitInfo

text \<open>Truth value testing, as \<^verbatim>\<open>if x:\<close>, \<^verbatim>\<open>x and y\<close> and \<^verbatim>\<open>x or y\<close> apply it.\<close>

fun truthy :: "pyval \<Rightarrow> bool" where
  "truthy PNone = False"
| "truthy (PBool b) = b"
| "truthy (PInt i) = (i \<noteq> 0)"
| "truthy (PFloat x) = (x \<noteq> 0)"
| "truthy (PStr s) = (s \<noteq> [])"
| "truthy (PList xs) = (xs \<noteq> [])"
| "truthy (PDict d) = (d \<noteq> [])"
| "truthy (PDatetime t) = True"
| "truthy (PRateLimitInfo i) = True"

section \<open>APIError\<close>

record api_error =
  code :: pyval
  message :: pyval
  status :: "int option"
  rate_limit :: pyval
  request_id :: pyval

text \<open>
  Exceptions are values. \<open>Timeout\<close> and \<open>RequestException\<close> are the two classes of
  the HTTP library that \<^verbatim>\<open>_request\<close> catches (the second with its \<^verbatim>\<open>str()\<close>);
  the next six are the built-in classes that the operations of the code raise;
  \<open>OtherException\<close> stands for any other exception class.
\<close>

datatype exn =
    APIError api_error
  | Timeout
  | RequestException string
  | AttributeError
  | TypeError
  | ValueError
  | KeyError
  | OverflowError
  | OSError
  | OtherException string

definition is_rate_limit_error :: "api_error \<Rightarrow> bool" where
  "is_rate_limit_error e \<longleftrightarrow> code e = PStr ''RATE_LIMIT_EXCEEDED''"

definition is_auth_error :: "api_error \<Rightarrow> bool" where
  "is_auth_error e \<longleftrightarrow> code e = PStr ''UNAUTHORIZED''"

text \<open>\<^verbatim>\<open>reset_at.replace("Z", "+00:00")\<close>\<close>

definition replace_Z :: "string \<Rightarrow> string" where
  "replace_Z s = concat (map (\<lambda>c. if c = CHR ''Z'' then ''+00:00'' else [c]) s)"

section \<open>Floats\<close>

text \<open>
  A float is a double: the result of an arithmetic operation on floats, and of the
  true division of two integers, is the exact result rounded to the nearest double,
  ties to the even mantissa. \<open>nearest_double\<close> is this rounding for a number in the
  normal range of doubles: with \<open>e\<close> the binary exponent of its magnitude, the
  magnitude is rounded to a multiple of \<open>2\<close> to the power \<open>e - 52\<close>. Infinities,
  not-a-number and the subnormal range are left out: the delays and time differences
  the code computes do not reach them.
\<close>

fun bit_length :: "nat \<Rightarrow> nat" where
  "bit_length n = (if n = 0 then 0 else Suc (bit_length (n div 2)))"

declare bit_length.simps [simp del]

definition round_half_even :: "'a::floor_ceiling \<Rightarrow> int" where
  "round_half_even m =
     (let f = \<lfloor>m\<rfloor>; r = m - of_int f
      in if r < 1 / 2 then f else if 1 / 2 < r then f + 1 else if even f then f else f + 1)"

text \<open>The integer \<open>e\<close> with \<open>2 ^ e \<le> a < 2 ^ (e + 1)\<close>, for a positive \<open>a\<close>.\<close>

definition binary_exponent :: "'a::floor_ceiling \<Rightarrow> int" where
  "binary_exponent a =
     (if 1 \<le> a then int (bit_length (nat \<lfloor>a\<rfloor>)) - 1
      else let j = bit_length (nat \<lfloor>1 / a\<rfloor>) - 1
           in if a * 2 ^ j = 1 then - int j else - int j - 1)"

definition round_magnitude :: "'a::floor_ceiling \<Rightarrow> 'a" where
  "round_magnitude a =
     (let e = binary_exponent a
      in if 52 \<le> e
         then of_int (round_half_even (a / 2 ^ nat (e - 52))) * 2 ^ nat (e - 52)
         else of_int (round_half_even (a * 2 ^ nat (52 - e))) / 2 ^ nat (52 - e))"

definition nearest_double :: "'a::floor_ceiling \<Rightarrow> 'a" where
  "nearest_double q =
     (if q = 0 then 0 else if 0 < q then round_magnitude q else - round_magnitude (- q))"

text \<open>\<^verbatim>\<open>int(x)\<close> for a float: the integer part, towards zero.\<close>

definition int_of_float :: "'a::floor_ceiling \<Rightarrow> int" where
  "int_of_float x = (if 0 \<le> x then \<lfloor>x\<rfloor> else - \<lfloor>- x\<rfloor>)"

text \<open>
  \<^verbatim>\<open>int(td.total_seconds() * 1000)\<close> for a \<^verbatim>\<open>timedelta\<close> of \<open>d\<close> microseconds:
  \<^verbatim>\<open>total_seconds\<close> divides the microseconds by \<^verbatim>\<open>10**6\<close> into a float, the
  product with 1000 is a float again, and \<^verbatim>\<open>int\<close> cuts it off.
\<close>

definition total_ms :: "int \<Rightarrow> int" where
  "total_ms d =
     int_of_float (nearest_double (nearest_double (real_of_int d / 1000000) * 1000))"

section \<open>The retry delay of an error\<close>

text \<open>
  \<^verbatim>\<open>get_retry_delay\<close>. The clock reading \<^verbatim>\<open>datetime.now(timezone.utc)\<close> is the
  argument \<open>now\<close>, so the delay is computed anew from the clock at every call.
  \<^verbatim>\<open>datetime.fromisoformat\<close> is the argument \<open>fromiso\<close>: it gives the instant a
  string denotes, or the exception that parsing it (or subtracting the clock from a
  date without an offset) raises. \<^verbatim>\<open>self.rate_limit.get\<close> exists on a \<^verbatim>\<open>dict\<close>
  only: every other truthy object raises \<^verbatim>\<open>AttributeError\<close>, the
  \<^verbatim>\<open>RateLimitInfo\<close> dataclass among them. Subtracting the clock from anything but
  a \<^verbatim>\<open>datetime\<close> raises \<^verbatim>\<open>TypeError\<close>.
\<close>

definition get_retry_delay :: "(string \<Rightarrow> exn + int) \<Rightarrow> int \<Rightarrow> api_error \<Rightarrow> exn + int" where
  "get_retry_delay fromiso now e =
     (if \<not> truthy (rate_limit e) then Inr 60000
      else case rate_limit e of
        PDict d \<Rightarrow>
          (case map_of d ''resetAt'' of
             None \<Rightarrow> Inr 60000
           | Some v \<Rightarrow>
               if \<not> truthy v then Inr 60000
               else (case v of
                  PStr s \<Rightarrow>
                    (case fromiso (replace_Z s) of
                       Inl x \<Rightarrow> Inl x
                     | Inr t \<Rightarrow> Inr (max 0 (total_ms (t - now))))
                | PDatetime t \<Rightarrow> Inr (max 0 (total_ms (t - now)))
                | _ \<Rightarrow> Inl TypeError))
      | _ \<Rightarrow> Inl AttributeError)"

section \<open>fetch_with_retry\<close>

text \<open>
  The helper runs in a world \<open>'w\<close>. The operation \<open>func\<close> maps a world to its
  outcome and the next world. The runtime gives the three library calls the helper
  makes: parsing an ISO date, reading the UTC clock and \<^verbatim>\<open>time.sleep\<close>. The line
  printed before each sleep is left out. Next to the outcome the model returns the list
  of events in the order they happened: each invocation of \<open>func\<close> and each sleep with
  its duration in seconds.
\<close>

record 'w runtime =
  fromisoformat :: "string \<Rightarrow> exn + int"
  utcnow :: "'w \<Rightarrow> int"
  sleep :: "real \<Rightarrow> 'w \<Rightarrow> 'w"

datatype event = Invoke | Sleep real

definition max_retries_error :: api_error where
  "max_retries_error =
     \<lparr>code = PStr ''MAX_RETRIES'', message = PStr ''Maximum retries exceeded'',
      status = None, rate_limit = PNone, request_id = PNone\<rparr>"

text \<open>
  The body of \<^verbatim>\<open>for attempt in range(max_retries)\<close>, by recursion over the values
  of \<^verbatim>\<open>attempt\<close> still to come. An exception raised inside the \<^verbatim>\<open>except\<close> block
  (by \<^verbatim>\<open>get_retry_delay\<close>) leaves the function. The two delays are floats, so the
  division by 1000 and the product with the backoff factor are rounded. The sleep
  length is never negative, since \<^verbatim>\<open>get_retry_delay\<close> returns no negative number.
\<close>

fun retry_loop ::
  "'w runtime \<Rightarrow> ('w \<Rightarrow> (exn + 'a) \<times> 'w) \<Rightarrow> int \<Rightarrow> real \<Rightarrow> int list \<Rightarrow> real \<Rightarrow> 'w
     \<Rightarrow> (exn + 'a) \<times> 'w \<times> event list" where
  "retry_loop rt func max_retries backoff_factor [] delay w =
     (Inl (APIError max_retries_error), w, [])"
| "retry_loop rt func max_retries backoff_factor (attempt # rest) delay w =
     (case func w of
        (Inr result, w1) \<Rightarrow> (Inr result, w1, [Invoke])
      | (Inl (APIError e), w1) \<Rightarrow>
          if is_rate_limit_error e \<and> attempt < max_retries - 1 then
            (case get_retry_delay (fromisoformat rt) (utcnow rt w1) e of
               Inl x \<Rightarrow> (Inl x, w1, [Invoke])
             | Inr d \<Rightarrow>
                 let retry_delay = max (nearest_double (real_of_int d / 1000)) delay in
                 (case retry_loop rt func max_retries backoff_factor rest
                         (nearest_double (delay * backoff_factor)) (sleep rt retry_delay w1) of
                    (r, w2, evs) \<Rightarrow> (r, w2, Invoke # Sleep retry_delay # evs)))
          else (Inl (APIError e), w1, [Invoke])
      | (Inl x, w1) \<Rightarrow> (Inl x, w1, [Invoke]))"

definition fetch_with_retry ::
  "'w runtime \<Rightarrow> ('w \<Rightarrow> (exn + 'a) \<times> 'w) \<Rightarrow> int \<Rightarrow> real \<Rightarrow> real \<Rightarrow> 'w
     \<Rightarrow> (exn + 'a) \<times> 'w \<times> event list" where
  "fetch_with_retry rt func max_retries initial_delay backoff_factor w =
     retry_loop rt func max_retries backoff_factor [0..max_retries - 1] initial_delay w"

section \<open>Parsing the rate limit headers\<close>

text \<open>
  \<^verbatim>\<open>int(s)\<close> on a string: whitespace is stripped at both ends, a sign may follow,
  and the rest is a non-empty run of decimal digits in which single underscores may
  separate digits. Anything else raises \<^verbatim>\<open>ValueError\<close>, and so does a string of
  more than 4300 digits (the interpreter's default limit). Header values are Latin-1
  text: the digits are the ASCII digits, and the whitespace is the ASCII whitespace
  (tab to carriage return, and the space) with the two Latin-1 spaces 0x85 and 0xA0.
\<close>

definition is_space :: "char \<Rightarrow> bool" where
  "is_space c \<longleftrightarrow> (of_char c :: nat) \<in> {9, 10, 11, 12, 13, 32, 133, 160}"

definition is_digit :: "char \<Rightarrow> bool" where
  "is_digit c \<longleftrightarrow> 48 \<le> (of_char c :: nat) \<and> (of_char c :: nat) \<le> 57"

definition digit_val :: "char \<Rightarrow> int" where
  "digit_val c = int (of_char c) - 48"

definition strip :: "string \<Rightarrow> string" where
  "strip s = rev (dropWhile is_space (rev (dropWhile is_space s)))"

fun parse_digits :: "bool \<Rightarrow> int \<Rightarrow> string \<Rightarrow> int option" where
  "parse_digits after_digit acc [] = (if after_digit then Some acc else None)"
| "parse_digits after_digit acc (c # cs) =
     (if is_digit c then parse_digits True (10 * acc + digit_val c) cs
      else if c = CHR ''_'' \<and> after_digit then parse_digits False acc cs
      else None)"

definition py_int :: "string \<Rightarrow> exn + int" where
  "py_int s =
     (case strip s of
        [] \<Rightarrow> Inl ValueError
      | c # cs \<Rightarrow>
          if 4300 < length (filter is_digit (c # cs)) then Inl ValueError
          else
          (case (if c = CHR ''-'' then map_option uminus (parse_digits False 0 cs)
                 else if c = CHR ''+'' then parse_digits False 0 cs
                 else parse_digits False 0 (c # cs)) of
             None \<Rightarrow> Inl ValueError
           | Some n \<Rightarrow> Inr n))"

text \<open>
  \<^verbatim>\<open>datetime.fromtimestamp(n, tz=timezone.utc)\<close>: the instant \<open>n\<close> seconds after the
  epoch, when it lies in the years 1 to 9999. Outside, the exception is the one the
  interpreter raises on a platform with a 64-bit \<^verbatim>\<open>time_t\<close>: \<^verbatim>\<open>OverflowError\<close>
  when \<open>n\<close> does not fit it, \<^verbatim>\<open>OSError\<close> when the C library cannot break the
  time down (its year does not fit an \<^verbatim>\<open>int\<close>), and \<^verbatim>\<open>ValueError\<close> for the
  other years.
\<close>

definition fromtimestamp :: "int \<Rightarrow> exn + int" where
  "fromtimestamp n =
     (if n < - 9223372036854775808 \<or> 9223372036854775807 < n then Inl OverflowError
      else if n < - 67768040609740800 \<or> 67768036191676799 < n then Inl OSError
      else if n < - 62135596800 \<or> 253402300799 < n then Inl ValueError
      else Inr (n * 1000000))"

text \<open>
  The headers of a response are a mapping from header names to values; \<open>h k\<close> is
  \<^verbatim>\<open>headers.get(k)\<close>. \<^verbatim>\<open>if not limit\<close> holds for a missing header and for an empty
  one. The source evaluates \<^verbatim>\<open>int\<close> of the remaining count first, then the reset
  time, then \<^verbatim>\<open>int(limit)\<close>; the first failure leaves the function.
\<close>

type_synonym headers = "string \<rightharpoonup> string"

text \<open>
  The lines that compute \<^verbatim>\<open>reset_dt\<close>: nothing for a missing or empty reset header,
  else the instant of the epoch seconds it holds.
\<close>

definition reset_dt :: "headers \<Rightarrow> exn + int option" where
  "reset_dt h =
     (case h ''X-RateLimit-Reset'' of
        None \<Rightarrow> Inr None
      | Some r \<Rightarrow>
          if r = [] then Inr None
          else (case py_int r of
                  Inl x \<Rightarrow> Inl x
                | Inr n \<Rightarrow> map_sum id Some (fromtimestamp n)))"

definition parse_rate_limit_headers :: "headers \<Rightarrow> exn + RateLimitInfo option" where
  "parse_rate_limit_headers h =
     (case h ''X-RateLimit-Limit'' of
        None \<Rightarrow> Inr None
      | Some limit_s \<Rightarrow>
          if limit_s = [] then Inr None
          else
            (case (case h ''X-RateLimit-Remaining'' of None \<Rightarrow> Inr 0 | Some r \<Rightarrow> py_int r) of
               Inl x \<Rightarrow> Inl x
             | Inr remaining_n \<Rightarrow>
                 let tier_s = (case h ''X-RateLimit-Tier'' of None \<Rightarrow> ''unknown'' | Some t \<Rightarrow> t)
                 in
                 (case reset_dt h of
                    Inl x \<Rightarrow> Inl x
                  | Inr reset \<Rightarrow>
                      (case py_int limit_s of
                         Inl x \<Rightarrow> Inl x
                       | Inr l \<Rightarrow>
                           Inr (Some \<lparr>limit = l, remaining = remaining_n, reset_at = reset,
                                      tier = tier_s\<rparr>)))))"

section \<open>The request primitive\<close>

record ApiResponse =
  data :: pyval
  error :: pyval
  meta :: pyval
  response_rate_limit :: "RateLimitInfo option"

definition success :: "ApiResponse \<Rightarrow> bool" where
  "success r \<longleftrightarrow> error r = PNone"

record client =
  api_key :: string
  base_url :: string
  timeout :: int
  session_headers :: "(string \<times> string) list"

definition rstrip_slash :: "string \<Rightarrow> string" where
  "rstrip_slash s = rev (dropWhile (\<lambda>c. c = CHR ''/'') (rev s))"

definition lstrip_slash :: "string \<Rightarrow> string" where
  "lstrip_slash s = dropWhile (\<lambda>c. c = CHR ''/'') s"

definition DadDeckAPI_init :: "string \<Rightarrow> string \<Rightarrow> int \<Rightarrow> client" where
  "DadDeckAPI_init key base t =
     \<lparr>api_key = key, base_url = rstrip_slash base, timeout = t,
      session_headers = [(''Authorization'', ''Bearer '' @ key),
                         (''Content-Type'', ''application/json'')]\<rparr>"

text \<open>
  One HTTP exchange. The session of the HTTP library is a parameter: it maps the
  request and the state of the outside world to a response or an exception, and the
  next state. A response carries its status, its headers and what
  \<^verbatim>\<open>response.json()\<close> does: return the decoded body or raise. \<^verbatim>\<open>response.ok\<close> is
  the library's test: false exactly for a status from 400 to 599.
\<close>

record http_request =
  req_method :: string
  req_url :: string
  req_params :: pyval
  req_json :: pyval
  req_timeout :: int
  req_headers :: "(string \<times> string) list"

record http_response =
  status_code :: int
  headers :: headers
  body_json :: "exn + pyval"

type_synonym 's session = "http_request \<Rightarrow> 's \<Rightarrow> (exn + http_response) \<times> 's"

definition ok :: "http_response \<Rightarrow> bool" where
  "ok r \<longleftrightarrow> \<not> (400 \<le> status_code r \<and> status_code r < 600)"

text \<open>\<^verbatim>\<open>str(n)\<close> for an integer, used in the message of the timeout error.\<close>

fun str_nat :: "nat \<Rightarrow> string" where
  "str_nat n =
     (if n < 10 then [char_of (48 + n)] else str_nat (n div 10) @ [char_of (48 + n mod 10)])"

declare str_nat.simps [simp del]

definition str_int :: "int \<Rightarrow> string" where
  "str_int i = (if i < 0 then CHR ''-'' # str_nat (nat (- i)) else str_nat (nat i))"

text \<open>\<^verbatim>\<open>obj.get(key, default)\<close>: only a \<^verbatim>\<open>dict\<close> has the method.\<close>

definition dict_get :: "pyval \<Rightarrow> string \<Rightarrow> pyval \<Rightarrow> exn + pyval" where
  "dict_get obj k dflt =
     (case obj of
        PDict d \<Rightarrow> Inr (case map_of d k of None \<Rightarrow> dflt | Some v \<Rightarrow> v)
      | _ \<Rightarrow> Inl AttributeError)"

text \<open>
  The \<^verbatim>\<open>except\<close> clauses of \<^verbatim>\<open>_request\<close>, in their order: an \<^verbatim>\<open>APIError\<close> is
  raised again, a timeout and any other exception of the HTTP library become an
  \<^verbatim>\<open>APIError\<close>, every other exception passes.
\<close>

definition request_except :: "client \<Rightarrow> exn \<Rightarrow> exn" where
  "request_except c x =
     (case x of
        APIError e \<Rightarrow> APIError e
      | Timeout \<Rightarrow>
          APIError \<lparr>code = PStr ''TIMEOUT'',
                    message = PStr (''Request timed out after '' @ str_int (timeout c) @ ''s''),
                    status = None, rate_limit = PNone, request_id = PNone\<rparr>
      | RequestException m \<Rightarrow>
          APIError \<lparr>code = PStr ''NETWORK_ERROR'', message = PStr m,
                    status = None, rate_limit = PNone, request_id = PNone\<rparr>
      | _ \<Rightarrow> x)"

text \<open>The \<^verbatim>\<open>try\<close> block of \<^verbatim>\<open>_request\<close> from the response on.\<close>

definition request_try :: "http_response \<Rightarrow> exn + ApiResponse" where
  "request_try response =
     (case parse_rate_limit_headers (headers response) of
        Inl x \<Rightarrow> Inl x
      | Inr rl \<Rightarrow>
          if \<not> ok response then
            (case body_json response of
               Inl x \<Rightarrow> Inl x
             | Inr error_data \<Rightarrow>
            (case dict_get error_data ''error'' (PDict []) of
               Inl x \<Rightarrow> Inl x
             | Inr err \<Rightarrow>
            (case dict_get err ''code'' (PStr ''API_ERROR'') of
               Inl x \<Rightarrow> Inl x
             | Inr c \<Rightarrow>
            (case dict_get err ''message'' (PStr ''Unknown error'') of
               Inl x \<Rightarrow> Inl x
             | Inr m \<Rightarrow>
            (case dict_get error_data ''meta'' (PDict []) of
               Inl x \<Rightarrow> Inl x
             | Inr mt \<Rightarrow>
            (case dict_get mt ''requestId'' PNone of
               Inl x \<Rightarrow> Inl x
             | Inr rid \<Rightarrow>
                 Inl (APIError
                   \<lparr>code = c, message = m, status = Some (status_code response),
                    rate_limit = (case rl of None \<Rightarrow> PNone | Some i \<Rightarrow> PRateLimitInfo i),
                    request_id = rid\<rparr>)))))))
          else
            (case body_json response of
               Inl x \<Rightarrow> Inl x
             | Inr response_data \<Rightarrow>
            (case dict_get response_data ''data'' PNone of
               Inl x \<Rightarrow> Inl x
             | Inr d \<Rightarrow>
            (case dict_get response_data ''error'' PNone of
               Inl x \<Rightarrow> Inl x
             | Inr e \<Rightarrow>
            (case dict_get response_data ''meta'' PNone of
               Inl x \<Rightarrow> Inl x
             | Inr m \<Rightarrow>
                 Inr \<lparr>data = d, error = e, meta = m, response_rate_limit = rl\<rparr>)))))"

text \<open>The call \<^verbatim>\<open>self.session.request(...)\<close> that \<^verbatim>\<open>_request\<close> makes.\<close>

definition session_request_args ::
  "client \<Rightarrow> string \<Rightarrow> string \<Rightarrow> pyval \<Rightarrow> pyval \<Rightarrow> http_request" where
  "session_request_args c method endpoint params body =
     \<lparr>req_method = method, req_url = base_url c @ ''/'' @ lstrip_slash endpoint,
      req_params = params, req_json = body, req_timeout = timeout c,
      req_headers = session_headers c\<rparr>"

definition DadDeckAPI_request ::
  "'s session \<Rightarrow> client \<Rightarrow> string \<Rightarrow> string \<Rightarrow> pyval \<Rightarrow> pyval \<Rightarrow> 's \<Rightarrow> (exn + ApiResponse) \<times> 's" where
  "DadDeckAPI_request session c method endpoint params body s =
     (case session (session_request_args c method endpoint params body) s of
        (Inl x, s') \<Rightarrow> (Inl (request_except c x), s')
      | (Inr response, s') \<Rightarrow>
          (case request_try response of
             Inl x \<Rightarrow> (Inl (request_except c x), s')
           | Inr r \<Rightarrow> (Inr r, s')))"

section \<open>Listing cards\<close>

text \<open>
  \<^verbatim>\<open>CardsAPI.list\<close>, called with keyword arguments only. Its parameters are
  \<^verbatim>\<open>page\<close>, \<^verbatim>\<open>page_size\<close>, \<^verbatim>\<open>rarity\<close>, \<^verbatim>\<open>type\<close>, \<^verbatim>\<open>series\<close> and
  \<^verbatim>\<open>search\<close>; a keyword that names none of them raises \<^verbatim>\<open>TypeError\<close> before
  the body runs. A parameter that is not passed takes its default.
\<close>

definition CardsAPI_list_parameters :: "string list" where
  "CardsAPI_list_parameters =
     [''page'', ''page_size'', ''rarity'', ''type'', ''series'', ''search'']"

definition kwarg :: "(string \<times> pyval) list \<Rightarrow> string \<Rightarrow> pyval \<Rightarrow> pyval" where
  "kwarg kwargs k dflt = (case map_of kwargs k of None \<Rightarrow> dflt | Some v \<Rightarrow> v)"

definition CardsAPI_list ::
  "'s session \<Rightarrow> client \<Rightarrow> (string \<times> pyval) list \<Rightarrow> 's \<Rightarrow> (exn + ApiResponse) \<times> 's" where
  "CardsAPI_list session c kwargs s =
     (if \<not> set (map fst kwargs) \<subseteq> set CardsAPI_list_parameters then (Inl TypeError, s)
      else
        let page = kwarg kwargs ''page'' (PInt 1);
            page_size = kwarg kwargs ''page_size'' (PInt 50);
            rarity = kwarg kwargs ''rarity'' PNone;
            type = kwarg kwargs ''type'' PNone;
            series = kwarg kwargs ''series'' PNone;
            search = kwarg kwargs ''search'' PNone;
            params = [(''page'', page), (''pageSize'', page_size)]
              @ (if truthy rarity then [(''rarity'', rarity)] else [])
              @ (if truthy type then [(''type'', type)] else [])
              @ (if truthy series then [(''series'', series)] else [])
              @ (if truthy search then [(''search'', search)] else [])
        in DadDeckAPI_request session c ''GET'' ''/cards'' (PDict params) PNone s)"

section \<open>get_all_cards\<close>

text \<open>\<^verbatim>\<open>obj[key]\<close> for a string key: only a \<^verbatim>\<open>dict\<close> can be subscripted by it.\<close>

definition subscript :: "pyval \<Rightarrow> string \<Rightarrow> exn + pyval" where
  "subscript obj k =
     (case obj of
        PDict d \<Rightarrow> (case map_of d k of None \<Rightarrow> Inl KeyError | Some v \<Rightarrow> Inr v)
      | _ \<Rightarrow> Inl TypeError)"

text \<open>The items \<^verbatim>\<open>list.extend\<close> takes from its argument.\<close>

definition iterate :: "pyval \<Rightarrow> exn + pyval list" where
  "iterate obj =
     (case obj of
        PList xs \<Rightarrow> Inr xs
      | PStr s \<Rightarrow> Inr (map (\<lambda>c. PStr [c]) s)
      | PDict d \<Rightarrow> Inr (map (\<lambda>kv. PStr (fst kv)) d)
      | _ \<Rightarrow> Inl TypeError)"

text \<open>
  One pass through the body of the \<^verbatim>\<open>while\<close> loop. The client's
  \<^verbatim>\<open>cards.list\<close> is the parameter \<open>cards_list\<close>, applied to the keyword arguments
  \<^verbatim>\<open>{**(filters or {}), "page": page, "pageSize": 100}\<close>: the entries of the filters
  in their order, then the two fixed keys, each replacing an entry of the same name.
  The pass returns the extended list and the new value of \<^verbatim>\<open>has_more\<close>.
\<close>

definition get_all_cards_body ::
  "((string \<times> pyval) list \<Rightarrow> 's \<Rightarrow> (exn + ApiResponse) \<times> 's) \<Rightarrow> (string \<times> pyval) list option
     \<Rightarrow> pyval list \<Rightarrow> int \<Rightarrow> 's \<Rightarrow> (exn + pyval list \<times> pyval) \<times> 's" where
  "get_all_cards_body cards_list filters all_cards page s =
     (let params = AList.update ''pageSize'' (PInt 100)
                     (AList.update ''page'' (PInt page)
                        (case filters of None \<Rightarrow> [] | Some f \<Rightarrow> f))
      in
      case cards_list params s of
        (Inl x, s') \<Rightarrow> (Inl x, s')
      | (Inr response, s') \<Rightarrow>
          (case subscript (data response) ''cards'' of
             Inl x \<Rightarrow> (Inl x, s')
           | Inr cards \<Rightarrow>
          (case iterate cards of
             Inl x \<Rightarrow> (Inl x, s')
           | Inr items \<Rightarrow>
          (case subscript (data response) ''pagination'' of
             Inl x \<Rightarrow> (Inl x, s')
           | Inr pagination \<Rightarrow>
          (case subscript pagination ''hasNext'' of
             Inl x \<Rightarrow> (Inl x, s')
           | Inr has_more \<Rightarrow> (Inr (all_cards @ items, has_more), s'))))))"

text \<open>
  The loop \<^verbatim>\<open>while has_more\<close>. It may run forever, so the result is an option:
  \<open>None\<close> says that the call does not return.
\<close>

partial_function (option) get_all_cards_loop ::
  "((string \<times> pyval) list \<Rightarrow> 's \<Rightarrow> (exn + ApiResponse) \<times> 's) \<Rightarrow> (string \<times> pyval) list option
     \<Rightarrow> pyval list \<Rightarrow> int \<Rightarrow> pyval \<Rightarrow> 's \<Rightarrow> ((exn + pyval list) \<times> 's) option" where
  "get_all_cards_loop cards_list filters all_cards page has_more s =
     (if truthy has_more then
        (case get_all_cards_body cards_list filters all_cards page s of
           (Inl x, s') \<Rightarrow> Some (Inl x, s')
         | (Inr (all_cards', has_more'), s') \<Rightarrow>
             get_all_cards_loop cards_list filters all_cards' (page + 1) has_more' s')
      else Some (Inr all_cards, s))"

definition get_all_cards ::
  "((string \<times> pyval) list \<Rightarrow> 's \<Rightarrow> (exn + ApiResponse) \<times> 's) \<Rightarrow> (string \<times> pyval) list option
     \<Rightarrow> 's \<Rightarrow> ((exn + pyval list) \<times> 's) option" where
  "get_all_cards cards_list filters s =
     get_all_cards_loop cards_list filters [] 1 (PBool True) s"

section \<open>Example inputs\<close>

text \<open>
  A world that is just the UTC clock in microseconds: sleeping advances it, and no
  ISO date is ever parsed.
\<close>

definition example_runtime :: "int runtime" where
  "example_runtime =
     \<lparr>fromisoformat = (\<lambda>s. Inl ValueError), utcnow = (\<lambda>w. w),
      sleep = (\<lambda>d w. w + \<lfloor>d * 1000000\<rfloor>)\<rparr>"

definition example_client :: client where
  "example_client =
     DadDeckAPI_init ''ddpk_live_example_key'' ''https://api.dadddeck.com/v1/'' 30"

text \<open>A server that gives the same response to every request.\<close>

definition always_respond :: "http_response \<Rightarrow> 's session" where
  "always_respond r req s = (Inr r, s)"

text \<open>An operation that raises a rate limit error with no snapshot attached, every time.\<close>

definition rate_limited :: api_error where
  "rate_limited =
     \<lparr>code = PStr ''RATE_LIMIT_EXCEEDED'', message = PStr ''Too many requests'',
      status = Some 429, rate_limit = PNone, request_id = PNone\<rparr>"

definition always_rate_limited :: "int \<Rightarrow> (exn + ApiResponse) \<times> int" where
  "always_rate_limited w = (Inl (APIError rate_limited), w)"



text \<open>An operation that raises an authentication error, every time.\<close>

definition unauthorized :: api_error where
  "unauthorized =
     \<lparr>code = PStr ''UNAUTHORIZED'', message = PStr ''Invalid API key'',
      status = Some 401, rate_limit = PNone, request_id = PNone\<rparr>"

definition always_unauthorized :: "int \<Rightarrow> (exn + ApiResponse) \<times> int" where
  "always_unauthorized w = (Inl (APIError unauthorized), w)"

text \<open>
  The response of a server that limits the client: status 429, the four rate limit
  headers and the error envelope. The reset time is 60 seconds after the instant
  1700000000. Below it, the error that \<^verbatim>\<open>_request\<close> raises for this response.
\<close>

definition rate_limited_response :: http_response where
  "rate_limited_response =
     \<lparr>status_code = 429,
      headers = map_of [(''X-RateLimit-Limit'', ''1000''),
                        (''X-RateLimit-Remaining'', ''0''),
                        (''X-RateLimit-Reset'', ''1700000060''),
                        (''X-RateLimit-Tier'', ''free'')],
      body_json = Inr (PDict
        [(''error'', PDict [(''code'', PStr ''RATE_LIMIT_EXCEEDED''),
                            (''message'', PStr ''Too many requests'')]),
         (''meta'', PDict [(''requestId'', PStr ''req_1'')])])\<rparr>"

definition server_rate_limited :: api_error where
  "server_rate_limited =
     \<lparr>code = PStr ''RATE_LIMIT_EXCEEDED'', message = PStr ''Too many requests'',
      status = Some 429,
      rate_limit = PRateLimitInfo \<lparr>limit = 1000, remaining = 0,
                                   reset_at = Some 1700000060000000, tier = ''free''\<rparr>,
      request_id = PStr ''req_1''\<rparr>"

text \<open>
  The scenario of a successful listing: status 200, quota headers, ten cards and a
  next page.
\<close>

definition listing_response :: http_response where
  "listing_response =
     \<lparr>status_code = 200,
      headers = map_of [(''X-RateLimit-Limit'', ''1000''),
                        (''X-RateLimit-Remaining'', ''999''),
                        (''X-RateLimit-Reset'', ''1700000060'')],
      body_json = Inr (PDict
        [(''data'', PDict [(''cards'', PList (replicate 10 (PDict []))),
                           (''pagination'', PDict [(''hasNext'', PBool True)])]),
         (''meta'', PDict [])])\<rparr>"

text \<open>Status 200 with an error object in the envelope.\<close>

definition error_in_success_response :: http_response where
  "error_in_success_response =
     \<lparr>status_code = 200, headers = Map.empty,
      body_json = Inr (PDict
        [(''data'', PNone),
         (''error'', PDict [(''code'', PStr ''CARD_NOT_FOUND''),
                            (''message'', PStr ''No such card'')]),
         (''meta'', PDict [])])\<rparr>"

text \<open>Status 302 with a JSON body and nothing to follow.\<close>

definition found_response :: http_response where
  "found_response =
     \<lparr>status_code = 302, headers = Map.empty,
      body_json = Inr (PDict [(''data'', PNone), (''meta'', PDict [])])\<rparr>"

text \<open>
  Status 500 with a body that is no JSON: \<^verbatim>\<open>response.json()\<close> raises the HTTP
  library's decoding error, one of its request exceptions.
\<close>

definition html_error_response :: http_response where
  "html_error_response =
     \<lparr>status_code = 500, headers = Map.empty,
      body_json = Inl (RequestException
        ''Expecting value: line 1 column 1 (char 0)'')\<rparr>"

text \<open>
  Headers whose remaining count is no number, headers whose remaining count is a digit
  after the control character 0x1F (which is no whitespace), headers with the limit
  only, and headers with all four entries.
\<close>

definition headers_unparseable_remaining :: headers where
  "headers_unparseable_remaining =
     map_of [(''X-RateLimit-Limit'', ''1000''), (''X-RateLimit-Remaining'', ''many'')]"

definition headers_control_remaining :: headers where
  "headers_control_remaining =
     map_of [(''X-RateLimit-Limit'', ''1000''),
             (''X-RateLimit-Remaining'', [CHR 0x1F, CHR ''7''])]"

definition headers_limit_only :: headers where
  "headers_limit_only = map_of [(''X-RateLimit-Limit'', ''1000'')]"

definition headers_full :: headers where
  "headers_full =
     map_of [(''X-RateLimit-Limit'', ''1000''), (''X-RateLimit-Remaining'', ''999''),
             (''X-RateLimit-Reset'', ''1700000060''), (''X-RateLimit-Tier'', ''pro'')]"

text \<open>
  A client whose \<^verbatim>\<open>cards.list\<close> takes any keyword arguments and forwards them as
  the query of a request; the page of a server that reports a next page on every
  page, and the page of one whose first page is the last.
\<close>

definition forwarding_list ::
  "'s session \<Rightarrow> client \<Rightarrow> (string \<times> pyval) list \<Rightarrow> 's \<Rightarrow> (exn + ApiResponse) \<times> 's" where
  "forwarding_list session c kwargs s =
     DadDeckAPI_request session c ''GET'' ''/cards'' (PDict kwargs) PNone s"

definition endless_response :: http_response where
  "endless_response =
     \<lparr>status_code = 200, headers = Map.empty,
      body_json = Inr (PDict
        [(''data'', PDict [(''cards'', PList []),
                           (''pagination'', PDict [(''hasNext'', PBool True)])]),
         (''meta'', PDict [])])\<rparr>"

definition last_page_response :: http_response where
  "last_page_response =
     \<lparr>status_code = 200, headers = Map.empty,
      body_json = Inr (PDict
        [(''data'', PDict [(''cards'', PList [PStr ''bbq_dad_001'']),
                           (''pagination'', PDict [(''hasNext'', PBool False)])]),
         (''meta'', PDict [])])\<rparr>"

text \<open>Status 404 with the empty JSON object as its body.\<close>

definition empty_object_response :: http_response where
  "empty_object_response =
     \<lparr>status_code = 404, headers = Map.empty, body_json = Inr (PDict [])\<rparr>"

text \<open>
  A server with three pages: pages 1 and 2 hold 100 cards each and report a next page,
  page 3 holds 17 cards and reports none. Its state is the list of the queries it has
  been sent.
\<close>

definition page_of :: "http_request \<Rightarrow> int" where
  "page_of req =
     (case req_params req of
        PDict d \<Rightarrow> (case map_of d ''page'' of Some (PInt n) \<Rightarrow> n | _ \<Rightarrow> 0)
      | _ \<Rightarrow> 0)"

definition page_response :: "int \<Rightarrow> http_response" where
  "page_response n =
     \<lparr>status_code = 200, headers = Map.empty,
      body_json = Inr (PDict
        [(''data'',
          PDict [(''cards'',
                  PList (replicate (if n = 1 \<or> n = 2 then 100 else if n = 3 then 17 else 0)
                           (PInt n))),
                 (''pagination'', PDict [(''hasNext'', PBool (n < 3))])]),
         (''meta'', PDict [])])\<rparr>"

definition paged_session :: "pyval list session" where
  "paged_session req seen = (Inr (page_response (page_of req)), seen @ [req_params req])"

section \<open>Helper lemmas\<close>

lemmas py_int_eval = py_int_def strip_def is_space_def is_digit_def digit_val_def

lemma py_int_error: "py_int s = Inl x \<Longrightarrow> x = ValueError"
  by (auto simp: py_int_def split: list.splits option.splits if_splits)

lemma bit_length_0 [simp]: "bit_length 0 = 0"
  by (simp add: bit_length.simps)

lemma bit_length_1 [simp]: "bit_length 1 = 1" "bit_length (Suc 0) = Suc 0"
  by (simp_all add: bit_length.simps [of 1] bit_length.simps [of "Suc 0"])

lemma bit_length_numeral [simp]:
  "bit_length (numeral (Num.Bit0 n)) = Suc (bit_length (numeral n))"
  "bit_length (numeral (Num.Bit1 n)) = Suc (bit_length (numeral n))"
  by (simp_all add: bit_length.simps [of "numeral (Num.Bit0 n)"]
      bit_length.simps [of "numeral (Num.Bit1 n)"] numeral_Bit0_div_2 numeral_Bit1_div_2)

lemmas nearest_double_eval =
  nearest_double_def round_magnitude_def binary_exponent_def round_half_even_def




lemma round_half_even_nonneg: "0 \<le> m \<Longrightarrow> 0 \<le> round_half_even m"
  by (auto simp: round_half_even_def Let_def)

lemma round_magnitude_nonneg: "0 \<le> a \<Longrightarrow> 0 \<le> round_magnitude a"
  by (simp add: round_magnitude_def Let_def round_half_even_nonneg)

lemma nearest_double_nonneg: "0 \<le> q \<Longrightarrow> 0 \<le> nearest_double q"
  by (simp add: nearest_double_def round_magnitude_nonneg)




text \<open>
  The rounding shows in the milliseconds: 1.001 seconds are 1000 milliseconds, since
  the double nearest to 1.001, times 1000, lies below 1001.
\<close>

lemma total_ms_rounding: "total_ms 1001000 = 1000"
proof -
  have 1: "nearest_double (1001 / 1000 :: real) = 2254051613498933 / 2251799813685248"
    by (simp add: nearest_double_eval)
  have 2: "nearest_double (281756451687366625 / 281474976710656 :: real) =
      8804889115230207 / 8796093022208"
    by (simp add: nearest_double_eval)
  show ?thesis
    by (simp add: total_ms_def int_of_float_def 1 2)
qed

lemma total_ms_minute: "total_ms 60000000 = 60000"
  by (simp add: total_ms_def int_of_float_def nearest_double_eval)

lemma get_retry_delay_nonneg: "get_retry_delay fromiso now e = Inr d \<Longrightarrow> 0 \<le> d"
  by (auto simp: get_retry_delay_def split: if_splits pyval.splits option.splits sum.splits)

text \<open>
  One failed attempt that is retried: the helper sleeps for the larger of the error's
  retry delay (in seconds) and the backoff delay, and goes on with the backoff delay
  multiplied.
\<close>

lemma retry_loop_rate_limited_step:
  assumes "func w = (Inl (APIError e), w1)" and "is_rate_limit_error e"
    and "attempt < max_retries - 1"
    and "get_retry_delay (fromisoformat rt) (utcnow rt w1) e = Inr d"
    and "retry_loop rt func max_retries backoff_factor rest
           (nearest_double (delay * backoff_factor))
           (sleep rt (max (nearest_double (real_of_int d / 1000)) delay) w1) = (r, w2, evs)"
  shows "retry_loop rt func max_retries backoff_factor (attempt # rest) delay w =
           (r, w2, Invoke # Sleep (max (nearest_double (real_of_int d / 1000)) delay) # evs)"
  using assms by simp



lemma rate_limited_response_raises:
  "CardsAPI_list (always_respond rate_limited_response) example_client [] s =
     (Inl (APIError server_rate_limited), s)"
  by (simp add: CardsAPI_list_def kwarg_def DadDeckAPI_request_def always_respond_def rate_limited_response_def
      request_try_def parse_rate_limit_headers_def reset_dt_def fromtimestamp_def py_int_eval
      ok_def dict_get_def request_except_def server_rate_limited_def)

lemma get_all_cards_loop_diverges:
  assumes "\<forall>ac pg st. \<exists>ac' hm st'.
             get_all_cards_body cl f ac pg st = (Inr (ac', hm), st') \<and> truthy hm"
    and "truthy hm0"
  shows "get_all_cards_loop cl f ac0 pg0 hm0 s = None"
proof (rule ccontr)
  assume "get_all_cards_loop cl f ac0 pg0 hm0 s \<noteq> None"
  then obtain y where y: "get_all_cards_loop cl f ac0 pg0 hm0 s = Some y" by blast
  have "cl = cl \<and> f = f \<and> truthy hm0 \<longrightarrow> False"
  proof (rule get_all_cards_loop.raw_induct
      [where P = "\<lambda>cl' f' ac pg hm st y. cl' = cl \<and> f' = f \<and> truthy hm \<longrightarrow> False", OF _ y])
    fix loop cl' f' ac pg hm st r
    assume IH: "\<And>cl' f' ac pg hm st r.
        loop cl' f' ac pg hm st = Some r \<Longrightarrow> cl' = cl \<and> f' = f \<and> truthy hm \<longrightarrow> False"
      and step: "(if truthy hm then
              (case get_all_cards_body cl' f' ac pg st of
                 (Inl x, s') \<Rightarrow> Some (Inl x, s')
               | (Inr (all_cards', has_more'), s') \<Rightarrow>
                   loop cl' f' all_cards' (pg + 1) has_more' s')
            else Some (Inr ac, st)) = Some r"
    show "cl' = cl \<and> f' = f \<and> truthy hm \<longrightarrow> False"
    proof (intro impI, elim conjE)
      assume eq: "cl' = cl" "f' = f" and hm: "truthy hm"
      from assms(1) obtain ac' hm' st'
        where b: "get_all_cards_body cl f ac pg st = (Inr (ac', hm'), st')" "truthy hm'"
        by blast
      from step eq hm b have "loop cl f ac' (pg + 1) hm' st' = Some r" by simp
      from IH[OF this] b(2) show False by simp
    qed
  qed
  with assms(2) show False by blast
qed

lemma get_all_cards_loop_last_page:
  assumes "truthy hm0" and "get_all_cards_body cl f ac pg st = (Inr (ac', hm), st')"
    and "\<not> truthy hm"
  shows "get_all_cards_loop cl f ac pg hm0 st = Some (Inr ac', st')"
  using assms
  by (subst get_all_cards_loop.simps, simp, subst get_all_cards_loop.simps, simp)

lemma endless_response_body:
  "get_all_cards_body (forwarding_list (always_respond endless_response) example_client) None ac pg st =
     (Inr (ac, PBool True), st)"
  by (simp add: get_all_cards_body_def forwarding_list_def DadDeckAPI_request_def
      always_respond_def endless_response_def request_try_def parse_rate_limit_headers_def ok_def dict_get_def
      subscript_def iterate_def)

lemma last_page_response_body:
  "get_all_cards_body (forwarding_list (always_respond last_page_response) example_client) None ac pg st =
     (Inr (ac @ [PStr ''bbq_dad_001''], PBool False), st)"
  by (simp add: get_all_cards_body_def forwarding_list_def DadDeckAPI_request_def
      always_respond_def last_page_response_def request_try_def parse_rate_limit_headers_def ok_def dict_get_def
      subscript_def iterate_def)

section \<open>The retry helper\<close>

text \<open>
  C10. When \<^verbatim>\<open>max_retries\<close> is zero or negative, \<^verbatim>\<open>fetch_with_retry\<close> never
  invokes the operation and never sleeps: it raises the \<^verbatim>\<open>MAX_RETRIES\<close> error at
  once, in the world it was called in.
\<close>

theorem fetch_with_retry_no_attempts:
  assumes "max_retries \<le> 0"
  shows "fetch_with_retry rt func max_retries initial_delay backoff_factor w =
           (Inl (APIError max_retries_error), w, [])"
  using assms by (simp add: fetch_with_retry_def)

text \<open>
  Witness for C10: with \<^verbatim>\<open>max_retries\<close> 0 and \<open>-2\<close> an operation that would
  raise a rate limit error is not invoked.
\<close>

theorem fetch_with_retry_no_attempts_witness:
  "(0::int) \<le> 0 \<and> (- 2::int) \<le> 0 \<and>
   fetch_with_retry example_runtime always_rate_limited 0 1 2 7 =
     (Inl (APIError max_retries_error), 7, []) \<and>
   fetch_with_retry example_runtime always_rate_limited (- 2) 1 2 7 =
     (Inl (APIError max_retries_error), 7, [])"
  using fetch_with_retry_no_attempts [of 0 example_runtime always_rate_limited 1 2 7]
    fetch_with_retry_no_attempts [of "- 2" example_runtime always_rate_limited 1 2 7]
  by simp




text \<open>
  C8 as stated fails for \<^verbatim>\<open>max_retries=0\<close>: the operation, whose first invocation
  would raise an \<^verbatim>\<open>UNAUTHORIZED\<close> error, is not invoked at all, and the error
  raised is \<^verbatim>\<open>MAX_RETRIES\<close>.
\<close>

theorem fetch_with_retry_auth_error_counterexample:
  "always_unauthorized 0 = (Inl (APIError unauthorized), 0) \<and>
   \<not> is_rate_limit_error unauthorized \<and>
   fetch_with_retry example_runtime always_unauthorized 0 1 2 0 =
     (Inl (APIError max_retries_error), 0, [])"
  by (simp add: fetch_with_retry_def always_unauthorized_def unauthorized_def
      is_rate_limit_error_def)

text \<open>
  C8, amended. For every \<^verbatim>\<open>max_retries\<close> of at least 1 and every operation whose
  first invocation raises an \<^verbatim>\<open>APIError\<close> that is no rate limit error,
  \<^verbatim>\<open>fetch_with_retry\<close> raises that same error again at once: one invocation, no
  sleep, whatever the delays.
\<close>

theorem fetch_with_retry_other_error_immediate:
  assumes "0 < max_retries" and "func w = (Inl (APIError e), w1)"
    and "\<not> is_rate_limit_error e"
  shows "fetch_with_retry rt func max_retries initial_delay backoff_factor w =
           (Inl (APIError e), w1, [Invoke])"
  using assms by (simp add: fetch_with_retry_def upto_rec1)

text \<open>
  Witness for C8, amended: the operation raising \<^verbatim>\<open>UNAUTHORIZED\<close>, with
  \<^verbatim>\<open>max_retries\<close> 3 and 1.
\<close>

theorem fetch_with_retry_other_error_immediate_witness:
  "(0::int) < 3 \<and> (0::int) < 1 \<and>
   always_unauthorized 0 = (Inl (APIError unauthorized), 0) \<and>
   \<not> is_rate_limit_error unauthorized \<and>
   fetch_with_retry example_runtime always_unauthorized 3 1 2 0 =
     (Inl (APIError unauthorized), 0, [Invoke]) \<and>
   fetch_with_retry example_runtime always_unauthorized 1 1 2 0 =
     (Inl (APIError unauthorized), 0, [Invoke])"
proof -
  have a: "always_unauthorized 0 = (Inl (APIError unauthorized), 0)"
    by (simp add: always_unauthorized_def)
  have b: "\<not> is_rate_limit_error unauthorized"
    by (simp add: is_rate_limit_error_def unauthorized_def)
  have "(0::int) < 3" and "(0::int) < 1" by simp_all
  from fetch_with_retry_other_error_immediate
      [where func = always_unauthorized and w = 0 and rt = example_runtime
         and initial_delay = 1 and backoff_factor = 2, OF this(1) a b]
    fetch_with_retry_other_error_immediate
      [where func = always_unauthorized and w = 0 and rt = example_runtime
         and initial_delay = 1 and backoff_factor = 2, OF this(2) a b]
    a b
  show ?thesis by simp
qed

text \<open>
  C6: the code departs from the claim on the errors the client itself raises. The
  operation is \<^verbatim>\<open>client.cards.list()\<close> against the server that answers 429 with
  rate limit headers. \<^verbatim>\<open>_request\<close> attaches the parsed \<^verbatim>\<open>RateLimitInfo\<close> to the
  error, \<^verbatim>\<open>get_retry_delay\<close> calls \<^verbatim>\<open>.get\<close> on it, and the \<^verbatim>\<open>AttributeError\<close>
  leaves \<^verbatim>\<open>fetch_with_retry\<close> after one invocation: there is no wait and no
  second attempt.
\<close>

theorem fetch_with_retry_server_rate_limit_no_wait:
  "fetch_with_retry example_runtime (CardsAPI_list (always_respond rate_limited_response) example_client [])
     3 1 2 1700000000000000 =
     (Inl AttributeError, 1700000000000000, [Invoke])"
  by (simp add: fetch_with_retry_def upto_rec1 rate_limited_response_raises
      server_rate_limited_def is_rate_limit_error_def get_retry_delay_def)

text \<open>
  C7: the code departs from the claim on every error that carries the snapshot
  \<^verbatim>\<open>_request\<close> attaches. The server's reset time is 60 seconds after the query
  time, so the claim gives a delay of 60000 milliseconds; \<^verbatim>\<open>get_retry_delay\<close>
  raises \<^verbatim>\<open>AttributeError\<close> instead.
\<close>

theorem get_retry_delay_server_rate_limit:
  "CardsAPI_list (always_respond rate_limited_response) example_client [] 0 =
     (Inl (APIError server_rate_limited), 0) \<and>
   rate_limit server_rate_limited =
     PRateLimitInfo \<lparr>limit = 1000, remaining = 0, reset_at = Some 1700000060000000,
                     tier = ''free''\<rparr> \<and>
   get_retry_delay (fromisoformat example_runtime) 1700000000000000 server_rate_limited =
     Inl AttributeError"
  by (simp add: rate_limited_response_raises server_rate_limited_def get_retry_delay_def)

text \<open>
  The same for every error, every snapshot of the dataclass, every clock reading and
  every date parser.
\<close>

lemma get_retry_delay_RateLimitInfo:
  "get_retry_delay fromiso now (e\<lparr>rate_limit := PRateLimitInfo i\<rparr>) = Inl AttributeError"
  by (simp add: get_retry_delay_def)

text \<open>
  What \<^verbatim>\<open>get_retry_delay\<close> returns where it does return: the default without a
  snapshot, and for a snapshot that is a dictionary holding the reset time as a
  \<^verbatim>\<open>datetime\<close>, the milliseconds until then, zero when the time has passed.
\<close>

lemma get_retry_delay_default:
  "get_retry_delay fromiso now (e\<lparr>rate_limit := PNone\<rparr>) = Inr 60000"
  by (simp add: get_retry_delay_def)

lemma get_retry_delay_dict:
  "get_retry_delay fromiso now (e\<lparr>rate_limit := PDict [(''resetAt'', PDatetime t)]\<rparr>) =
     Inr (max 0 (total_ms (t - now)))"
  by (simp add: get_retry_delay_def)

section \<open>The rate limit headers\<close>

text \<open>
  C4 as stated fails: with a limit header and a remaining header that is no number,
  the parser does not return a \<^verbatim>\<open>RateLimitInfo\<close> with \<^verbatim>\<open>remaining\<close> 0, it raises
  \<^verbatim>\<open>ValueError\<close>.
\<close>

theorem parse_rate_limit_headers_unparseable_counterexample:
  "headers_unparseable_remaining ''X-RateLimit-Limit'' = Some ''1000'' \<and>
   headers_unparseable_remaining ''X-RateLimit-Remaining'' = Some ''many'' \<and>
   parse_rate_limit_headers headers_unparseable_remaining = Inl ValueError"
  by (simp add: parse_rate_limit_headers_def headers_unparseable_remaining_def py_int_eval)

text \<open>
  C4, amended. For every header mapping: when the limit header is missing (or empty)
  the parser returns nothing, without an error. Otherwise, when the limit header is
  an integer and the reset time is missing or valid, it returns a \<^verbatim>\<open>RateLimitInfo\<close>
  whose \<^verbatim>\<open>remaining\<close> is 0 when the remaining header is missing and its value when
  it is an integer, and whose \<^verbatim>\<open>tier\<close> is the tier header, or the literal
  \<^verbatim>\<open>unknown\<close> when that header is missing. When the remaining header is present and
  is no integer, the parser raises \<^verbatim>\<open>ValueError\<close>.
\<close>

theorem parse_rate_limit_headers_defaults:
  "(h ''X-RateLimit-Limit'' = None \<or> h ''X-RateLimit-Limit'' = Some [] \<longrightarrow>
      parse_rate_limit_headers h = Inr None) \<and>
   (\<forall>l n rd. h ''X-RateLimit-Limit'' = Some l \<and> l \<noteq> [] \<and> py_int l = Inr n \<and>
        reset_dt h = Inr rd \<and> h ''X-RateLimit-Remaining'' = None \<longrightarrow>
      parse_rate_limit_headers h =
        Inr (Some \<lparr>limit = n, remaining = 0, reset_at = rd,
                   tier = (case h ''X-RateLimit-Tier'' of
                             None \<Rightarrow> ''unknown'' | Some t \<Rightarrow> t)\<rparr>)) \<and>
   (\<forall>l n rd r m. h ''X-RateLimit-Limit'' = Some l \<and> l \<noteq> [] \<and> py_int l = Inr n \<and>
        reset_dt h = Inr rd \<and> h ''X-RateLimit-Remaining'' = Some r \<and> py_int r = Inr m \<longrightarrow>
      parse_rate_limit_headers h =
        Inr (Some \<lparr>limit = n, remaining = m, reset_at = rd,
                   tier = (case h ''X-RateLimit-Tier'' of
                             None \<Rightarrow> ''unknown'' | Some t \<Rightarrow> t)\<rparr>)) \<and>
   (\<forall>l r. h ''X-RateLimit-Limit'' = Some l \<and> l \<noteq> [] \<and>
        h ''X-RateLimit-Remaining'' = Some r \<and> py_int r = Inl ValueError \<longrightarrow>
      parse_rate_limit_headers h = Inl ValueError)"
  by (auto simp: parse_rate_limit_headers_def)

text \<open>
  Witness for C4, amended: no headers at all; the limit header alone (remaining 0, tier
  \<^verbatim>\<open>unknown\<close>, no reset time); all four headers; the headers whose remaining
  count is no number; and the headers whose remaining count is the control character
  0x1F before a digit, which \<^verbatim>\<open>int\<close> rejects as well.
\<close>

theorem parse_rate_limit_headers_defaults_witness:
  "parse_rate_limit_headers Map.empty = Inr None \<and>
   parse_rate_limit_headers headers_limit_only =
     Inr (Some \<lparr>limit = 1000, remaining = 0, reset_at = None, tier = ''unknown''\<rparr>) \<and>
   parse_rate_limit_headers headers_full =
     Inr (Some \<lparr>limit = 1000, remaining = 999, reset_at = Some 1700000060000000,
                tier = ''pro''\<rparr>) \<and>
   py_int ''many'' = Inl ValueError \<and>
   parse_rate_limit_headers headers_unparseable_remaining = Inl ValueError \<and>
   py_int [CHR 0x1F, CHR ''7''] = Inl ValueError \<and>
   parse_rate_limit_headers headers_control_remaining = Inl ValueError"
proof -
  have n: "py_int ''1000'' = Inr 1000" "py_int ''999'' = Inr 999"
    "py_int ''many'' = Inl ValueError" "py_int [CHR 0x1F, CHR ''7''] = Inl ValueError"
    by (simp_all add: py_int_eval)
  have r: "reset_dt headers_limit_only = Inr None"
    "reset_dt headers_full = Inr (Some 1700000060000000)"
    by (simp_all add: reset_dt_def headers_limit_only_def headers_full_def py_int_eval
        fromtimestamp_def)
  from parse_rate_limit_headers_defaults [of Map.empty]
  have 1: "parse_rate_limit_headers Map.empty = Inr None"
    by simp
  from parse_rate_limit_headers_defaults [of headers_limit_only] n r
  have 2: "parse_rate_limit_headers headers_limit_only =
      Inr (Some \<lparr>limit = 1000, remaining = 0, reset_at = None, tier = ''unknown''\<rparr>)"
    by (simp add: headers_limit_only_def)
  from parse_rate_limit_headers_defaults [of headers_full] n r
  have 3: "parse_rate_limit_headers headers_full =
      Inr (Some \<lparr>limit = 1000, remaining = 999, reset_at = Some 1700000060000000,
                 tier = ''pro''\<rparr>)"
    by (simp add: headers_full_def)
  from parse_rate_limit_headers_defaults [of headers_unparseable_remaining] n
  have 4: "parse_rate_limit_headers headers_unparseable_remaining = Inl ValueError"
    by (simp add: headers_unparseable_remaining_def)
  from parse_rate_limit_headers_defaults [of headers_control_remaining] n
  have 5: "parse_rate_limit_headers headers_control_remaining = Inl ValueError"
    by (simp add: headers_control_remaining_def)
  from 1 2 3 4 5 n(3) n(4) show ?thesis by simp
qed

section \<open>The request primitive and its errors\<close>

text \<open>
  C3 as stated fails in each of its parts. A response with status 200 whose envelope
  holds an error object is returned with \<^verbatim>\<open>success\<close> false. A response with status
  302, outside 200 to 299, is returned as well: no \<^verbatim>\<open>APIError\<close> is raised, since
  \<^verbatim>\<open>response.ok\<close> holds below 400.
\<close>

theorem request_success_range_counterexample:
  "map_sum id success
     (fst (DadDeckAPI_request (always_respond error_in_success_response) example_client ''GET'' ''/cards/x''
             PNone PNone (0::int))) = Inr False \<and>
   map_sum id success
     (fst (DadDeckAPI_request (always_respond found_response) example_client ''GET'' ''/cards/x''
             PNone PNone (0::int))) = Inr True"
  by (simp add: DadDeckAPI_request_def always_respond_def error_in_success_response_def always_respond_def found_response_def
      request_try_def parse_rate_limit_headers_def ok_def dict_get_def success_def)

text \<open>
  C3, amended. Let the exchange give a response. When its status lies outside 400 to
  599 (as every status from 200 to 299 does), its rate limit headers parse and its
  body is a JSON object, then \<^verbatim>\<open>_request\<close> constructs no \<^verbatim>\<open>APIError\<close>: it returns
  an \<^verbatim>\<open>ApiResponse\<close>, and \<^verbatim>\<open>success\<close> holds exactly when the body has no
  \<^verbatim>\<open>error\<close> entry or a null one. When the status lies in 400 to 599, \<^verbatim>\<open>_request\<close>
  returns no response: it raises.
\<close>

theorem request_success_range:
  assumes "session (session_request_args c method endpoint params body) s = (Inr response, s')"
  shows "(\<forall>rl d. \<not> (400 \<le> status_code response \<and> status_code response < 600) \<and>
            parse_rate_limit_headers (headers response) = Inr rl \<and>
            body_json response = Inr (PDict d) \<longrightarrow>
          (\<exists>r. DadDeckAPI_request session c method endpoint params body s = (Inr r, s') \<and>
               (success r \<longleftrightarrow> map_of d ''error'' = None \<or> map_of d ''error'' = Some PNone)))
       \<and> (400 \<le> status_code response \<and> status_code response < 600 \<longrightarrow>
          (\<exists>x. DadDeckAPI_request session c method endpoint params body s = (Inl x, s')))"
  using assms
  by (auto simp: DadDeckAPI_request_def request_try_def ok_def dict_get_def success_def
      split: sum.splits option.splits)

text \<open>
  Witness for C3, amended: the successful listing (status 200, quota headers, a body
  with no error entry) is returned with \<^verbatim>\<open>success\<close> true, and the response with
  status 429 makes \<^verbatim>\<open>_request\<close> raise.
\<close>

theorem request_success_range_witness:
  "always_respond listing_response
     (session_request_args example_client ''GET'' ''/cards''
        (PDict [(''rarity'', PStr ''rare''), (''pageSize'', PInt 10)]) PNone) (0::int) =
     (Inr listing_response, 0) \<and>
   \<not> (400 \<le> status_code listing_response \<and> status_code listing_response < 600) \<and>
   (\<exists>rl d. parse_rate_limit_headers (headers listing_response) = Inr rl \<and>
      body_json listing_response = Inr (PDict d) \<and> map_of d ''error'' = None) \<and>
   (\<exists>r. DadDeckAPI_request (always_respond listing_response) example_client ''GET'' ''/cards''
          (PDict [(''rarity'', PStr ''rare''), (''pageSize'', PInt 10)]) PNone (0::int) =
          (Inr r, 0) \<and> success r) \<and>
   always_respond rate_limited_response
     (session_request_args example_client ''GET'' ''/cards'' PNone PNone) (0::int) =
     (Inr rate_limited_response, 0) \<and>
   400 \<le> status_code rate_limited_response \<and> status_code rate_limited_response < 600 \<and>
   (\<exists>x. DadDeckAPI_request (always_respond rate_limited_response) example_client ''GET''
          ''/cards'' PNone PNone (0::int) = (Inl x, 0))"
proof -
  let ?q = "PDict [(''rarity'', PStr ''rare''), (''pageSize'', PInt 10)]"
  let ?d = "[(''data'', PDict [(''cards'', PList (replicate 10 (PDict []))),
                               (''pagination'', PDict [(''hasNext'', PBool True)])]),
             (''meta'', PDict [])]"
  let ?rl = "Some \<lparr>limit = 1000, remaining = 999, reset_at = Some 1700000060000000,
                    tier = ''unknown''\<rparr>"
  have a: "always_respond listing_response
      (session_request_args example_client ''GET'' ''/cards'' ?q PNone) (0::int) =
      (Inr listing_response, 0)"
    by (simp add: always_respond_def)
  have b: "\<not> (400 \<le> status_code listing_response \<and> status_code listing_response < 600)"
    by (simp add: listing_response_def)
  have c: "parse_rate_limit_headers (headers listing_response) = Inr ?rl"
    by (simp add: listing_response_def parse_rate_limit_headers_def reset_dt_def
        fromtimestamp_def py_int_eval)
  have d: "body_json listing_response = Inr (PDict ?d)"
    by (simp add: listing_response_def)
  have e: "map_of ?d ''error'' = None"
    by simp
  from request_success_range [where session = "always_respond listing_response", OF a] b c d e
  have 1: "\<exists>r. DadDeckAPI_request (always_respond listing_response) example_client ''GET''
      ''/cards'' ?q PNone (0::int) = (Inr r, 0) \<and> success r"
    by blast
  have f: "always_respond rate_limited_response
      (session_request_args example_client ''GET'' ''/cards'' PNone PNone) (0::int) =
      (Inr rate_limited_response, 0)"
    by (simp add: always_respond_def)
  have g: "400 \<le> status_code rate_limited_response \<and> status_code rate_limited_response < 600"
    by (simp add: rate_limited_response_def)
  from request_success_range [where session = "always_respond rate_limited_response", OF f] g
  have 2: "\<exists>x. DadDeckAPI_request (always_respond rate_limited_response) example_client
      ''GET'' ''/cards'' PNone PNone (0::int) = (Inl x, 0)"
    by blast
  from a b c d e 1 f g 2 show ?thesis by blast
qed

text \<open>
  C5 as stated fails. For a body that is no JSON, with status 500, the error raised has
  the code \<^verbatim>\<open>NETWORK_ERROR\<close> and the decoder's message, not the defaults
  \<^verbatim>\<open>API_ERROR\<close> and \<^verbatim>\<open>Unknown error\<close>, and it has no status. For the status
  302, outside 200 to 299, no \<^verbatim>\<open>APIError\<close> is raised at all: the response is
  returned.
\<close>

theorem request_error_fields_counterexample:
  "DadDeckAPI_request (always_respond html_error_response) example_client ''GET'' ''/cards''
     PNone PNone (0::int) =
     (Inl (APIError \<lparr>code = PStr ''NETWORK_ERROR'',
                      message = PStr ''Expecting value: line 1 column 1 (char 0)'',
                      status = None, rate_limit = PNone, request_id = PNone\<rparr>), 0) \<and>
   DadDeckAPI_request (always_respond found_response) example_client ''GET'' ''/cards''
     PNone PNone (0::int) =
     (Inr \<lparr>data = PNone, error = PNone, meta = PDict [], response_rate_limit = None\<rparr>, 0)"
  by (simp add: DadDeckAPI_request_def always_respond_def html_error_response_def
      found_response_def request_try_def parse_rate_limit_headers_def ok_def dict_get_def
      request_except_def)

text \<open>
  C5, amended. Let the exchange give a response with a status from 400 to 599 whose
  rate limit headers parse. When the body is a JSON object whose \<^verbatim>\<open>error\<close> and
  \<^verbatim>\<open>meta\<close> entries, where present, are objects, the \<^verbatim>\<open>APIError\<close> raised takes its
  code and message from the error object, falling back to \<^verbatim>\<open>API_ERROR\<close> and
  \<^verbatim>\<open>Unknown error\<close> for a missing entry, its request id from the meta object,
  and carries the status and the parsed rate limit. When decoding the body raises,
  that exception goes through the \<^verbatim>\<open>except\<close> clauses of \<^verbatim>\<open>_request\<close> instead: no
  error with the default code and message is built.
\<close>

theorem request_error_fields:
  assumes "session (session_request_args c method endpoint params body) s = (Inr response, s')"
    and "400 \<le> status_code response \<and> status_code response < 600"
    and "parse_rate_limit_headers (headers response) = Inr rl"
  shows "(\<forall>d ed md. body_json response = Inr (PDict d) \<and>
             kwarg d ''error'' (PDict []) = PDict ed \<and>
             kwarg d ''meta'' (PDict []) = PDict md \<longrightarrow>
           DadDeckAPI_request session c method endpoint params body s =
             (Inl (APIError
                \<lparr>code = kwarg ed ''code'' (PStr ''API_ERROR''),
                 message = kwarg ed ''message'' (PStr ''Unknown error''),
                 status = Some (status_code response),
                 rate_limit = (case rl of None \<Rightarrow> PNone | Some i \<Rightarrow> PRateLimitInfo i),
                 request_id = kwarg md ''requestId'' PNone\<rparr>), s'))
       \<and> (\<forall>x. body_json response = Inl x \<longrightarrow>
           DadDeckAPI_request session c method endpoint params body s =
             (Inl (request_except c x), s'))"
  using assms
  by (auto simp: DadDeckAPI_request_def request_try_def ok_def dict_get_def kwarg_def
      request_except_def split: sum.splits option.splits)

text \<open>
  Witness for C5, amended: the response with status 429 gives the fields of its error
  and meta objects, the response with status 404 and an empty object gives the
  defaults, and the response with status 500 and no JSON gives the network error.
\<close>

theorem request_error_fields_witness:
  "DadDeckAPI_request (always_respond rate_limited_response) example_client ''GET'' ''/cards''
     PNone PNone (0::int) = (Inl (APIError server_rate_limited), 0) \<and>
   DadDeckAPI_request (always_respond empty_object_response) example_client ''GET'' ''/cards''
     PNone PNone (0::int) =
     (Inl (APIError \<lparr>code = PStr ''API_ERROR'', message = PStr ''Unknown error'',
                      status = Some 404, rate_limit = PNone, request_id = PNone\<rparr>), 0) \<and>
   DadDeckAPI_request (always_respond html_error_response) example_client ''GET'' ''/cards''
     PNone PNone (0::int) =
     (Inl (request_except example_client
             (RequestException ''Expecting value: line 1 column 1 (char 0)'')), 0)"
proof -
  let ?a = "session_request_args example_client ''GET'' ''/cards'' PNone PNone"
  have 1: "DadDeckAPI_request (always_respond rate_limited_response) example_client ''GET''
      ''/cards'' PNone PNone (0::int) = (Inl (APIError server_rate_limited), 0)"
  proof -
    have a: "always_respond rate_limited_response ?a (0::int) = (Inr rate_limited_response, 0)"
      by (simp add: always_respond_def)
    have b: "400 \<le> status_code rate_limited_response \<and> status_code rate_limited_response < 600"
      by (simp add: rate_limited_response_def)
    have c: "parse_rate_limit_headers (headers rate_limited_response) =
        Inr (Some \<lparr>limit = 1000, remaining = 0, reset_at = Some 1700000060000000,
                   tier = ''free''\<rparr>)"
      by (simp add: rate_limited_response_def parse_rate_limit_headers_def reset_dt_def
          fromtimestamp_def py_int_eval)
    from request_error_fields [where session = "always_respond rate_limited_response", OF a b c]
    show ?thesis
      by (simp add: rate_limited_response_def kwarg_def server_rate_limited_def)
  qed
  have 2: "DadDeckAPI_request (always_respond empty_object_response) example_client ''GET''
      ''/cards'' PNone PNone (0::int) =
      (Inl (APIError \<lparr>code = PStr ''API_ERROR'', message = PStr ''Unknown error'',
                       status = Some 404, rate_limit = PNone, request_id = PNone\<rparr>), 0)"
  proof -
    have a: "always_respond empty_object_response ?a (0::int) = (Inr empty_object_response, 0)"
      by (simp add: always_respond_def)
    have b: "400 \<le> status_code empty_object_response \<and>
        status_code empty_object_response < 600"
      by (simp add: empty_object_response_def)
    have c: "parse_rate_limit_headers (headers empty_object_response) = Inr None"
      by (simp add: empty_object_response_def parse_rate_limit_headers_def)
    from request_error_fields [where session = "always_respond empty_object_response", OF a b c]
    show ?thesis
      by (simp add: empty_object_response_def kwarg_def)
  qed
  have 3: "DadDeckAPI_request (always_respond html_error_response) example_client ''GET''
      ''/cards'' PNone PNone (0::int) =
      (Inl (request_except example_client
              (RequestException ''Expecting value: line 1 column 1 (char 0)'')), 0)"
  proof -
    have a: "always_respond html_error_response ?a (0::int) = (Inr html_error_response, 0)"
      by (simp add: always_respond_def)
    have b: "400 \<le> status_code html_error_response \<and> status_code html_error_response < 600"
      by (simp add: html_error_response_def)
    have c: "parse_rate_limit_headers (headers html_error_response) = Inr None"
      by (simp add: html_error_response_def parse_rate_limit_headers_def)
    from request_error_fields [where session = "always_respond html_error_response", OF a b c]
    show ?thesis
      by (simp add: html_error_response_def)
  qed
  from 1 2 3 show ?thesis by simp
qed

section \<open>Pagination\<close>

text \<open>
  C9: the code departs from the claim for every client of the class \<^verbatim>\<open>DadDeckAPI\<close>,
  every server and every filter. \<^verbatim>\<open>get_all_cards\<close> passes the keyword
  \<^verbatim>\<open>pageSize\<close>, the parameter of \<^verbatim>\<open>CardsAPI.list\<close> is \<^verbatim>\<open>page_size\<close>: the first
  call raises \<^verbatim>\<open>TypeError\<close> before any request is sent, so no page is fetched and
  no card is returned.
\<close>

theorem get_all_cards_unexpected_keyword:
  "get_all_cards (CardsAPI_list session c) filters s = Some (Inl TypeError, s)"
proof -
  have "''pageSize'' \<in> fst ` set (AList.update ''pageSize'' (PInt 100) al)" for al
    by (simp add: dom_update)
  then have "\<not> set (map fst (AList.update ''pageSize'' (PInt 100) al))
      \<subseteq> set CardsAPI_list_parameters" for al
    by (auto simp: CardsAPI_list_parameters_def)
  then have "get_all_cards_body (CardsAPI_list session c) filters all_cards page s =
      (Inl TypeError, s)" for all_cards page
    by (simp add: get_all_cards_body_def CardsAPI_list_def del: set_map)
  then show ?thesis
    by (simp add: get_all_cards_def get_all_cards_loop.simps)
qed

text \<open>
  With a client whose \<^verbatim>\<open>cards.list\<close> accepts the keywords, the loop does what it
  was written for. Against the server with three pages it sends three queries, for the
  pages 1, 2 and 3, each with the page size 100 and the unchanged filter, and returns
  the 217 cards in the order of the pages.
\<close>

lemma paged_session_body:
  "get_all_cards_body (forwarding_list paged_session example_client)
     (Some [(''rarity'', PStr ''rare'')]) ac pg seen =
     (Inr (ac @ replicate (if pg = 1 \<or> pg = 2 then 100 else if pg = 3 then 17 else 0) (PInt pg),
           PBool (pg < 3)),
      seen @ [PDict [(''rarity'', PStr ''rare''), (''page'', PInt pg),
                     (''pageSize'', PInt 100)]])"
  by (simp add: get_all_cards_body_def forwarding_list_def DadDeckAPI_request_def
      paged_session_def page_response_def page_of_def session_request_args_def request_try_def
      parse_rate_limit_headers_def ok_def dict_get_def subscript_def iterate_def)

lemma get_all_cards_three_pages:
  "get_all_cards (forwarding_list paged_session example_client)
     (Some [(''rarity'', PStr ''rare'')]) [] =
     Some (Inr (replicate 100 (PInt 1) @ replicate 100 (PInt 2) @ replicate 17 (PInt 3)),
       [PDict [(''rarity'', PStr ''rare''), (''page'', PInt 1), (''pageSize'', PInt 100)],
        PDict [(''rarity'', PStr ''rare''), (''page'', PInt 2), (''pageSize'', PInt 100)],
        PDict [(''rarity'', PStr ''rare''), (''page'', PInt 3), (''pageSize'', PInt 100)]])"
  unfolding get_all_cards_def
  apply (subst get_all_cards_loop.simps, simp add: paged_session_body)
  apply (subst get_all_cards_loop.simps, simp add: paged_session_body)
  apply (subst get_all_cards_loop.simps, simp add: paged_session_body)
  apply (subst get_all_cards_loop.simps, simp)
  done

lemma get_all_cards_three_pages_length:
  "length (replicate 100 (PInt 1) @ replicate 100 (PInt 2) @ replicate 17 (PInt 3)) = 217"
  by simp

text \<open>
  C2 as stated fails. The client's \<^verbatim>\<open>cards.list\<close> accepts the keywords and the
  server reports \<^verbatim>\<open>hasNext\<close> true on every page: \<^verbatim>\<open>get_all_cards\<close> does not
  return, for there is no bound on the number of pages.
\<close>

theorem get_all_cards_page_cap_counterexample:
  "get_all_cards (forwarding_list (always_respond endless_response) example_client) None () =
     None"
  unfolding get_all_cards_def
  by (rule get_all_cards_loop_diverges) (simp_all add: endless_response_body)

text \<open>
  C2, amended. \<^verbatim>\<open>get_all_cards\<close> has no maximum page count. Whenever every pass
  through the loop body fetches a page that reports \<^verbatim>\<open>hasNext\<close> true, the call never
  returns. The loop stops as soon as a page reports \<^verbatim>\<open>hasNext\<close> false: it returns the
  cards accumulated up to and including that page.
\<close>

theorem get_all_cards_no_page_cap:
  "((\<forall>ac pg st. \<exists>ac' hm st'.
        get_all_cards_body cl f ac pg st = (Inr (ac', hm), st') \<and> truthy hm) \<longrightarrow>
      get_all_cards cl f s = None) \<and>
   (truthy has_more \<and>
    get_all_cards_body cl f all_cards page st = (Inr (all_cards', has_next), st') \<and>
    \<not> truthy has_next \<longrightarrow>
      get_all_cards_loop cl f all_cards page has_more st = Some (Inr all_cards', st'))"
  unfolding get_all_cards_def
  using get_all_cards_loop_diverges [of cl f "PBool True" "[]" 1 s]
    get_all_cards_loop_last_page [of has_more cl f all_cards page st all_cards' has_next st']
  by simp

text \<open>
  Witness for C2, amended: the server that always reports a next page, and the server
  whose first page is the last.
\<close>

theorem get_all_cards_no_page_cap_witness:
  "(\<forall>ac pg st. \<exists>ac' hm st'.
      get_all_cards_body (forwarding_list (always_respond endless_response) example_client)
        None ac pg st = (Inr (ac', hm), st') \<and> truthy hm) \<and>
   get_all_cards (forwarding_list (always_respond endless_response) example_client) None () =
     None \<and>
   truthy (PBool True) \<and>
   get_all_cards_body (forwarding_list (always_respond last_page_response) example_client)
     None [] 1 () = (Inr ([PStr ''bbq_dad_001''], PBool False), ()) \<and>
   \<not> truthy (PBool False) \<and>
   get_all_cards_loop (forwarding_list (always_respond last_page_response) example_client)
     None [] 1 (PBool True) () = Some (Inr [PStr ''bbq_dad_001''], ())"
proof -
  have a: "\<forall>ac pg st. \<exists>ac' hm st'.
      get_all_cards_body (forwarding_list (always_respond endless_response) example_client)
        None ac pg st = (Inr (ac', hm), st') \<and> truthy hm"
    by (simp add: endless_response_body)
  have b: "get_all_cards_body
      (forwarding_list (always_respond last_page_response) example_client)
      None [] 1 () = (Inr ([PStr ''bbq_dad_001''], PBool False), ())"
    by (simp add: last_page_response_body)
  from get_all_cards_no_page_cap
    [where cl = "forwarding_list (always_respond endless_response) example_client"
       and f = None and s = "()"] a
  have 1: "get_all_cards (forwarding_list (always_respond endless_response) example_client)
      None () = None"
    by blast
  from get_all_cards_no_page_cap
    [where cl = "forwarding_list (always_respond last_page_response) example_client"
       and f = None and has_more = "PBool True" and all_cards = "[]" and page = 1
       and st = "()" and all_cards' = "[PStr ''bbq_dad_001'']" and has_next = "PBool False"
       and st' = "()"] b
  have 2: "get_all_cards_loop
      (forwarding_list (always_respond last_page_response) example_client)
      None [] 1 (PBool True) () = Some (Inr [PStr ''bbq_dad_001''], ())"
    by simp
  from a 1 b 2 show ?thesis by simp
qed

end
